theory Spec2Isabelle
  imports Main
begin

section \<open>Data model\<close>

text \<open>
  The plugin (\<^verbatim>\<open>src/main.ts\<close>) and the note management page
  (\<^verbatim>\<open>NoteManagement.getNotes\<close>) work on the host application's vault, on the
  metadata cache, on the plugin's settings and on a remote backend. All of that is mutable
  state of the running application, so the model threads one record \<open>world\<close> through
  every operation. A rejected promise (a thrown exception) is the \<open>Inl\<close> of a sum.
\<close>

text \<open>An exception object, \<^verbatim>\<open>new Error(message)\<close>: the code only ever reads its
  \<^verbatim>\<open>message\<close>.\<close>

datatype js_error = Error (message: string)

text \<open>
  What a promise rejects with, or a \<^verbatim>\<open>catch\<close> receives. The type of the variable
  in \<^verbatim>\<open>catch (e)\<close> excludes nothing: the value is \<^verbatim>\<open>undefined\<close>,
  \<^verbatim>\<open>null\<close>, an object whose \<^verbatim>\<open>message\<close> is a string, or any other value
  (a string, a number, an object without such a property).
\<close>

datatype js_value = Undefined | Null | Object js_error | Other

text \<open>\<^verbatim>\<open>interface NoteItem { id: string; updated: string; path?: string }\<close>; the
  field \<^verbatim>\<open>id\<close> is \<open>item_id\<close> here.\<close>

record NoteItem =
  item_id :: string
  updated :: string
  path :: "string option"

text \<open>
  What the backend holds for one shared note. The vault path is not backend data: the
  field \<^verbatim>\<open>path\<close> of a \<open>NoteItem\<close> is filled in locally.
\<close>

record RemoteItem =
  remote_id :: string
  remote_updated :: string

text \<open>\<^verbatim>\<open>TFile\<close> of the host application; the code reads \<^verbatim>\<open>file.path\<close>, which
  is \<open>file_path\<close> here.\<close>

record TFile =
  file_path :: string

text \<open>
  \<^verbatim>\<open>CachedMetadata\<close>: the frontmatter is optional, and maps a property name to its
  value. The properties read by the code are strings.
\<close>

record CachedMetadata =
  frontmatter :: "(string \<rightharpoonup> string) option"

text \<open>The return value of \<^verbatim>\<open>parseExistingShareUrl\<close>, when it is an object.\<close>

record ShareUrl =
  filename :: string

text \<open>\<^verbatim>\<open>enum StatusType\<close>; a \<^verbatim>\<open>new StatusMessage(text, type)\<close> is recorded with
  the arguments of the call (\<open>None\<close> where the call leaves the type out).\<close>

datatype StatusType = StatusError | StatusSuccess

record StatusMessage =
  status_text :: string
  status_type :: "StatusType option"

text \<open>\<^verbatim>\<open>new Note(plugin)\<close>, with the two switches that \<^verbatim>\<open>uploadNote\<close> sets.\<close>

record Note =
  isForceUpload :: bool
  isForceClipboard :: bool

record world =
  settings :: "string \<rightharpoonup> string"
    \<comment> \<open>\<^verbatim>\<open>this.settings\<close>, an object of string-valued properties\<close>
  data :: "(string \<rightharpoonup> string) option"
    \<comment> \<open>what \<^verbatim>\<open>loadData()\<close> returns; \<open>None\<close> is \<^verbatim>\<open>null\<close>\<close>
  markdownFiles :: "TFile list"
    \<comment> \<open>\<^verbatim>\<open>app.vault.getMarkdownFiles()\<close>, in vault order\<close>
  fileCache :: "string \<rightharpoonup> CachedMetadata"
    \<comment> \<open>\<^verbatim>\<open>app.metadataCache.getFileCache(file)\<close>, by path; \<open>None\<close> is \<^verbatim>\<open>null\<close>\<close>
  backend :: "js_error + RemoteItem list"
    \<comment> \<open>the backend's list of shared notes, or the failure of the request\<close>
  requests :: "string list"
    \<comment> \<open>the requests sent to the backend so far\<close>
  console :: "js_error list"
    \<comment> \<open>what \<^verbatim>\<open>console.log\<close> has printed\<close>
  notifications :: "StatusMessage list"
    \<comment> \<open>the status messages shown to the user so far\<close>
  status_visible :: bool
    \<comment> \<open>whether the in-progress indicator \<^verbatim>\<open>note.status\<close> is on screen\<close>
  clipboard :: "string option"
  uploads :: nat
    \<comment> \<open>the number of uploads sent to the backend so far\<close>
  now :: string
    \<comment> \<open>the current time stamp\<close>

section \<open>JavaScript helpers\<close>

text \<open>Truthiness of an optional string: \<^verbatim>\<open>undefined\<close> and \<^verbatim>\<open>''\<close> are falsy.\<close>

fun truthy :: "string option \<Rightarrow> bool" where
  "truthy None = False"
| "truthy (Some s) = (s \<noteq> [])"

text \<open>String concatenation \<^verbatim>\<open>x + '_link'\<close> of a possibly undefined \<^verbatim>\<open>x\<close>.\<close>

fun to_string :: "string option \<Rightarrow> string" where
  "to_string None = ''undefined''"
| "to_string (Some s) = s"

text \<open>
  The property access \<^verbatim>\<open>e.message\<close>. On \<^verbatim>\<open>undefined\<close> and on
  \<^verbatim>\<open>null\<close> it throws a \<^verbatim>\<open>TypeError\<close>; on a value without a string
  \<^verbatim>\<open>message\<close> it gives nothing that equals a string.
\<close>

fun read_message :: "js_value \<Rightarrow> js_value + string option" where
  "read_message Undefined =
     Inl (Object (Error ''Cannot read properties of undefined (reading 'message')''))"
| "read_message Null =
     Inl (Object (Error ''Cannot read properties of null (reading 'message')''))"
| "read_message (Object e) = Inr (Some (message e))"
| "read_message Other = Inr None"

text \<open>\<^verbatim>\<open>meta?.frontmatter?.[name]\<close>\<close>

definition frontmatter_value :: "CachedMetadata option \<Rightarrow> string \<Rightarrow> string option" where
  "frontmatter_value meta name =
     (case meta of
        None \<Rightarrow> None
      | Some m \<Rightarrow> (case frontmatter m of None \<Rightarrow> None | Some fm \<Rightarrow> fm name))"

text \<open>\<^verbatim>\<open>Array.prototype.find\<close>, as the index of the first element that satisfies
  the predicate.\<close>

fun find_row :: "('a \<Rightarrow> bool) \<Rightarrow> 'a list \<Rightarrow> nat option" where
  "find_row P [] = None"
| "find_row P (x # xs) =
     (if P x then Some 0 else map_option Suc (find_row P xs))"

section \<open>Collaborators that are not part of the sources\<close>

text \<open>
  Modelled from the spec: \<^verbatim>\<open>plugin.field(YamlField.link)\<close> is missing from the sources.
  The link is stored under \<^verbatim>\<open>"<yamlField>_link"\<close>, which is also what
  \<^verbatim>\<open>copyShareLink\<close> computes as \<^verbatim>\<open>this.settings.yamlField + '_link'\<close>.
\<close>

definition field_link :: "world \<Rightarrow> string" where
  "field_link w = to_string (settings w ''yamlField'') @ ''_link''"

text \<open>
  Modelled from the spec: \<^verbatim>\<open>api.get('/v1/account/notes')\<close> (\<^verbatim>\<open>api.ts\<close> is missing
  from the sources) sends one request and answers with the backend's sequence of remote
  items, or fails. The items arrive as fresh objects without a \<^verbatim>\<open>path\<close>.
\<close>

definition from_remote :: "RemoteItem \<Rightarrow> NoteItem" where
  "from_remote r = \<lparr>item_id = remote_id r, updated = remote_updated r, path = None\<rparr>"

definition api_get :: "string \<Rightarrow> world \<Rightarrow> (js_error + NoteItem list) \<times> world" where
  "api_get url w =
     (map_sum (\<lambda>e. e) (map from_remote) (backend w),
      w\<lparr>requests := requests w @ [''GET '' @ url]\<rparr>)"

section \<open>Reconciliation: \<^verbatim>\<open>NoteManagement.getNotes\<close>\<close>

text \<open>
  The body of the \<^verbatim>\<open>forEach\<close> callback for one file. The function
  \<^verbatim>\<open>parseExistingShareUrl\<close> is a parameter: it answers with an object, or with a
  falsy value (\<open>None\<close>).
\<close>

definition annotate ::
  "(string \<Rightarrow> ShareUrl option) \<Rightarrow> world \<Rightarrow> TFile \<Rightarrow> NoteItem list \<Rightarrow> NoteItem list" where
  "annotate parseExistingShareUrl w file sharedNotes =
     (let metadata = fileCache w (file_path file);
          shareLink = frontmatter_value metadata (field_link w)
      in case shareLink of
           None \<Rightarrow> sharedNotes
         | Some link \<Rightarrow>
             if truthy shareLink then
               (case parseExistingShareUrl link of
                  None \<Rightarrow> sharedNotes
                | Some parsed \<Rightarrow>
                    (case find_row (\<lambda>x. item_id x = filename parsed) sharedNotes of
                       None \<Rightarrow> sharedNotes
                     | Some row \<Rightarrow>
                         sharedNotes
                           [row := (sharedNotes ! row)\<lparr>path := Some (file_path file)\<rparr>]))
             else sharedNotes)"

text \<open>
  \<^verbatim>\<open>getNotes\<close>: the request is inside the \<^verbatim>\<open>try\<close>; when it fails, the
  \<^verbatim>\<open>catch\<close> logs the error and the initial empty array is returned.
\<close>

definition getNotes ::
  "(string \<Rightarrow> ShareUrl option) \<Rightarrow> world \<Rightarrow> NoteItem list \<times> world" where
  "getNotes parseExistingShareUrl w =
     (case api_get ''/v1/account/notes'' w of
        (Inl e, w1) \<Rightarrow> ([], w1\<lparr>console := console w1 @ [e]\<rparr>)
      | (Inr sharedNotes, w1) \<Rightarrow>
          (fold (annotate parseExistingShareUrl w1) (markdownFiles w1) sharedNotes, w1))"

section \<open>The plugin: \<^verbatim>\<open>SharePlugin\<close>\<close>

text \<open>
  \<^verbatim>\<open>loadSettings\<close>: \<^verbatim>\<open>Object.assign({}, DEFAULT_SETTINGS, await this.loadData())\<close>.
  The later source wins, and a \<^verbatim>\<open>null\<close> source adds nothing. The constant
  \<^verbatim>\<open>DEFAULT_SETTINGS\<close> (\<^verbatim>\<open>settings.ts\<close>) is a parameter.
\<close>

definition loadSettings :: "(string \<rightharpoonup> string) \<Rightarrow> world \<Rightarrow> world" where
  "loadSettings DEFAULT_SETTINGS w =
     w\<lparr>settings := DEFAULT_SETTINGS ++ (case data w of None \<Rightarrow> Map.empty | Some d \<Rightarrow> d)\<rparr>"

text \<open>\<^verbatim>\<open>saveSettings\<close>: \<^verbatim>\<open>this.saveData(this.settings)\<close>\<close>

definition saveSettings :: "world \<Rightarrow> world" where
  "saveSettings w = w\<lparr>data := Some (settings w)\<rparr>"

text \<open>
  \<^verbatim>\<open>onload\<close>, up to the first save. The function \<^verbatim>\<open>hash\<close>
  (\<^verbatim>\<open>crypto.ts\<close>) is a parameter, and so are the renderings as strings of
  \<^verbatim>\<open>Date.now()\<close> and of \<^verbatim>\<open>Math.random()\<close>, which
  \<^verbatim>\<open>'' + Date.now() + Math.random()\<close> concatenates. The rest of
  \<^verbatim>\<open>onload\<close> registers the settings page, the commands and the menu item, and
  neither reads nor writes the settings.
\<close>

definition onload ::
  "(string \<rightharpoonup> string) \<Rightarrow> (string \<Rightarrow> string) \<Rightarrow> string \<Rightarrow> string \<Rightarrow> world \<Rightarrow> world" where
  "onload DEFAULT_SETTINGS hash date_now math_random w =
     (let w1 = loadSettings DEFAULT_SETTINGS w
      in if \<not> truthy (settings w1 ''uid'') then
           saveSettings
             (w1\<lparr>settings := (settings w1)(''uid'' \<mapsto> hash (date_now @ math_random))\<rparr>)
         else w1)"

text \<open>\<^verbatim>\<open>new StatusMessage(text, type)\<close> puts a message on screen.\<close>

definition new_StatusMessage :: "string \<Rightarrow> StatusType option \<Rightarrow> world \<Rightarrow> world" where
  "new_StatusMessage text type w =
     w\<lparr>notifications := notifications w @ [\<lparr>status_text = text, status_type = type\<rparr>]\<rparr>"

text \<open>\<^verbatim>\<open>note.status.hide()\<close>\<close>

definition status_hide :: "world \<Rightarrow> world" where
  "status_hide w = w\<lparr>status_visible := False\<rparr>"

text \<open>
  \<^verbatim>\<open>uploadNote\<close>. The method \<^verbatim>\<open>note.share()\<close> (\<^verbatim>\<open>note.ts\<close>) is a
  parameter: any function that, given the note's switches and the state, changes the state
  and either resolves or rejects with some value. The \<^verbatim>\<open>catch\<close> has no
  \<^verbatim>\<open>throw\<close>, but its test reads \<^verbatim>\<open>e.message\<close>: when that access throws,
  the exception leaves \<^verbatim>\<open>uploadNote\<close> from inside the \<^verbatim>\<open>catch\<close>, and the
  statement \<^verbatim>\<open>note.status.hide()\<close> after the \<^verbatim>\<open>try\<close> is not reached.
\<close>

definition uploadNote ::
  "(Note \<Rightarrow> world \<Rightarrow> (js_value + unit) \<times> world) \<Rightarrow> bool \<Rightarrow> bool \<Rightarrow> world
     \<Rightarrow> (js_value + unit) \<times> world" where
  "uploadNote share forceUpload forceClipboard w =
     (let note = \<lparr>isForceUpload = False, isForceClipboard = False\<rparr>;
          note = (if forceUpload then note\<lparr>isForceUpload := True\<rparr> else note);
          note = (if forceClipboard then note\<lparr>isForceClipboard := True\<rparr> else note)
      in case share note w of
           (Inr u, w1) \<Rightarrow> (Inr (), status_hide w1)
         | (Inl e, w1) \<Rightarrow>
             (case read_message e of
                Inl type_error \<Rightarrow> (Inl type_error, w1)
              | Inr m \<Rightarrow>
                  (Inr (),
                   status_hide
                     (if m = Some ''Unknown error'' then
                        new_StatusMessage
                          ''There was an error uploading the note, please try again.''
                          (Some StatusError) w1
                      else w1))))"

text \<open>\<^verbatim>\<open>copyShareLink\<close>\<close>

definition copyShareLink ::
  "(Note \<Rightarrow> world \<Rightarrow> (js_value + unit) \<times> world) \<Rightarrow> TFile \<Rightarrow> world
     \<Rightarrow> (js_value + unit) \<times> world" where
  "copyShareLink share file w =
     (let meta = fileCache w (file_path file);
          shareLink = frontmatter_value meta (to_string (settings w ''yamlField'') @ ''_link'')
      in case shareLink of
           None \<Rightarrow> uploadNote share False True w
         | Some link \<Rightarrow>
             if truthy shareLink then
               (Inr (),
                new_StatusMessage ''Shared link copied to clipboard'' None
                  (w\<lparr>clipboard := Some link\<rparr>))
             else uploadNote share False True w)"

section \<open>The share operation, from the specification\<close>

text \<open>\<^verbatim>\<open>ShareRecord\<close>: the remote identifier, the link and the time of the last
  successful upload, as kept in a document's metadata block.\<close>

record ShareRecord =
  record_id :: string
  link :: string
  record_updated :: string

text \<open>
  What the specification leaves to collaborators of the share operation: the link parser,
  the policy that judges a document's content unchanged against its record, the remote
  call (given the number of earlier uploads, the identifier of the prior record if any,
  and the content; it answers with an identifier and a link, or fails), the error raised
  for a malformed response, the user's clipboard preference and the success notification.
\<close>

record ShareEnv =
  parse :: "string \<Rightarrow> ShareUrl option"
  unchanged :: "string \<Rightarrow> ShareRecord \<Rightarrow> bool"
  remote_upload :: "nat \<Rightarrow> string option \<Rightarrow> string \<Rightarrow> js_error + string \<times> string"
  malformed_response :: js_error
  clipboard_on_share :: bool
  shared_message :: StatusMessage

text \<open>
  Modelled from the spec: the sibling fields of the link, \<^verbatim>\<open>"<yamlField>_id"\<close> and
  \<^verbatim>\<open>"<yamlField>_updated"\<close>, under the same prefix as \<^verbatim>\<open>"<yamlField>_link"\<close>.
\<close>

definition field_id :: "world \<Rightarrow> string" where
  "field_id w = to_string (settings w ''yamlField'') @ ''_id''"

definition field_updated :: "world \<Rightarrow> string" where
  "field_updated w = to_string (settings w ''yamlField'') @ ''_updated''"

text \<open>
  Modelled from the spec: the Share-State Store's \<^verbatim>\<open>read\<close> (section 4.2;
  \<^verbatim>\<open>note.ts\<close> is missing from the sources). It looks up the link and its sibling
  fields and answers absent when the record is not present or malformed: no link, a link
  that does not parse, or no time stamp. Without an identifier field, the identifier is
  recovered from the link.
\<close>

definition store_read :: "ShareEnv \<Rightarrow> world \<Rightarrow> TFile \<Rightarrow> ShareRecord option" where
  "store_read env w file =
     (let meta = fileCache w (file_path file)
      in case frontmatter_value meta (field_link w) of
           None \<Rightarrow> None
         | Some l \<Rightarrow>
             (case parse env l of
                None \<Rightarrow> None
              | Some parsed \<Rightarrow>
                  (case frontmatter_value meta (field_updated w) of
                     None \<Rightarrow> None
                   | Some u \<Rightarrow>
                       Some \<lparr>record_id =
                               (case frontmatter_value meta (field_id w) of
                                  None \<Rightarrow> filename parsed
                                | Some i \<Rightarrow> i),
                             link = l, record_updated = u\<rparr>)))"

text \<open>
  Modelled from the spec: the Share-State Store's \<^verbatim>\<open>write\<close> (section 4.2). It upserts
  the three fields in one step and leaves all other metadata as it is.
\<close>

definition store_write :: "TFile \<Rightarrow> ShareRecord \<Rightarrow> world \<Rightarrow> world" where
  "store_write file r w =
     (let meta = fileCache w (file_path file);
          fm = (case meta of
                  None \<Rightarrow> Map.empty
                | Some m \<Rightarrow> (case frontmatter m of None \<Rightarrow> Map.empty | Some f \<Rightarrow> f));
          fm' = fm(field_id w \<mapsto> record_id r, field_link w \<mapsto> link r,
                   field_updated w \<mapsto> record_updated r);
          meta' = (case meta of
                     None \<Rightarrow> \<lparr>frontmatter = Some fm'\<rparr>
                   | Some m \<Rightarrow> m\<lparr>frontmatter := Some fm'\<rparr>)
      in w\<lparr>fileCache := (fileCache w)(file_path file \<mapsto> meta')\<rparr>)"

text \<open>
  Modelled from the spec: step 5 of the share algorithm (section 4.3). The link is copied
  and a success notification emitted when \<^verbatim>\<open>forceClipboard\<close> is set or the user's
  setting asks for it.
\<close>

definition clipboard_step :: "ShareEnv \<Rightarrow> Note \<Rightarrow> string \<Rightarrow> world \<Rightarrow> world" where
  "clipboard_step env note l w =
     (if isForceClipboard note \<or> clipboard_on_share env then
        w\<lparr>clipboard := Some l, notifications := notifications w @ [shared_message env]\<rparr>
      else w)"

text \<open>
  Modelled from the spec: steps 3 and 4 (section 4.3). One remote call creates or updates
  the shared resource; on success the record is written with the returned identifier, the
  link and the current time stamp; a response whose link does not parse is a hard failure,
  and no failure writes the record.
\<close>

definition share_upload ::
  "ShareEnv \<Rightarrow> TFile \<Rightarrow> string \<Rightarrow> Note \<Rightarrow> string option \<Rightarrow> world
     \<Rightarrow> (js_error + unit) \<times> world" where
  "share_upload env file body note prior w =
     (let w1 = w\<lparr>uploads := Suc (uploads w)\<rparr>
      in case remote_upload env (uploads w) prior body of
           Inl e \<Rightarrow> (Inl e, w1)
         | Inr (i, l) \<Rightarrow>
             (case parse env l of
                None \<Rightarrow> (Inl (malformed_response env), w1)
              | Some parsed \<Rightarrow>
                  (Inr (),
                   clipboard_step env note l
                     (store_write file
                        \<lparr>record_id = i, link = l, record_updated = now w1\<rparr> w1))))"

text \<open>
  Modelled from the spec: \<^verbatim>\<open>share(document, options)\<close>, steps 1 to 5 of section 4.3
  (\<^verbatim>\<open>Note.share\<close> in \<^verbatim>\<open>note.ts\<close> is missing from the sources). The document is
  its file and its content body. With a record, without \<^verbatim>\<open>forceUpload\<close> and with
  content judged unchanged, the upload is skipped and the stored link goes to the
  clipboard step; otherwise the document is uploaded, as an update when there is a record.
\<close>

definition share ::
  "ShareEnv \<Rightarrow> TFile \<Rightarrow> string \<Rightarrow> Note \<Rightarrow> world \<Rightarrow> (js_error + unit) \<times> world" where
  "share env file body note w =
     (case store_read env w file of
        None \<Rightarrow> share_upload env file body note None w
      | Some r \<Rightarrow>
          if \<not> isForceUpload note \<and> unchanged env body r then
            (Inr (), clipboard_step env note (link r) w)
          else share_upload env file body note (Some (record_id r)) w)"

text \<open>The share operation of the specification in the place of \<^verbatim>\<open>note.share()\<close>:
  what it rejects with is the error object.\<close>

definition spec_share ::
  "ShareEnv \<Rightarrow> TFile \<Rightarrow> string \<Rightarrow> Note \<Rightarrow> world \<Rightarrow> (js_value + unit) \<times> world" where
  "spec_share env file body note w =
     (case share env file body note w of
        (Inl e, w1) \<Rightarrow> (Inl (Object e), w1)
      | (Inr u, w1) \<Rightarrow> (Inr u, w1))"

section \<open>Vocabulary of the statements\<close>

text \<open>
  The remote identifier that a document's stored link parses to, as \<open>annotate\<close>
  computes it: none when there is no metadata, no frontmatter, no link or an empty one, or
  when the link is not a share link.
\<close>

definition linked_id :: "(string \<Rightarrow> ShareUrl option) \<Rightarrow> world \<Rightarrow> TFile \<Rightarrow> string option" where
  "linked_id parseExistingShareUrl w file =
     (case frontmatter_value (fileCache w (file_path file)) (field_link w) of
        None \<Rightarrow> None
      | Some l \<Rightarrow> if l = [] then None else map_option filename (parseExistingShareUrl l))"

text \<open>The documents of a list whose stored link parses to a given identifier.\<close>

definition documents_of ::
  "(string \<Rightarrow> ShareUrl option) \<Rightarrow> world \<Rightarrow> string \<Rightarrow> TFile list \<Rightarrow> TFile list" where
  "documents_of parseExistingShareUrl w k files =
     filter (\<lambda>f. linked_id parseExistingShareUrl w f = Some k) files"

text \<open>The assignment \<^verbatim>\<open>row.path = p\<close> to the first row whose identifier is \<open>k\<close>,
  if there is one.\<close>

definition set_path :: "string \<Rightarrow> string \<Rightarrow> NoteItem list \<Rightarrow> NoteItem list" where
  "set_path k p ns =
     (case find_row (\<lambda>x. item_id x = k) ns of
        None \<Rightarrow> ns
      | Some i \<Rightarrow> ns[i := (ns ! i)\<lparr>path := Some p\<rparr>])"

text \<open>Row \<open>j\<close> is the one that \<^verbatim>\<open>find\<close> answers for its own identifier.\<close>

definition first_row :: "NoteItem list \<Rightarrow> nat \<Rightarrow> bool" where
  "first_row ns j \<longleftrightarrow> find_row (\<lambda>x. item_id x = item_id (ns ! j)) ns = Some j"

text \<open>The same world, with the link removed from one document's frontmatter.\<close>

definition without_link :: "world \<Rightarrow> TFile \<Rightarrow> world" where
  "without_link w file =
     w\<lparr>fileCache :=
         (fileCache w)(file_path file :=
           map_option
             (\<lambda>m. m\<lparr>frontmatter := map_option (\<lambda>fm. fm(field_link w := None)) (frontmatter m)\<rparr>)
             (fileCache w (file_path file)))\<rparr>"

section \<open>Concrete states\<close>

text \<open>A link parser for the examples: the identifier follows \<^verbatim>\<open>https://host/\<close>.\<close>

definition parse_host :: "string \<Rightarrow> ShareUrl option" where
  "parse_host s =
     (if take 13 s = ''https://host/'' \<and> drop 13 s \<noteq> [] then Some \<lparr>filename = drop 13 s\<rparr>
      else None)"

definition linked_note :: "string \<Rightarrow> CachedMetadata" where
  "linked_note l = \<lparr>frontmatter = Some [''share_link'' \<mapsto> l]\<rparr>"

text \<open>An empty vault, default settings, and a backend that holds nothing.\<close>

definition world0 :: world where
  "world0 =
     \<lparr>settings = [''yamlField'' \<mapsto> ''share''], data = None, markdownFiles = [],
      fileCache = Map.empty, backend = Inr [], requests = [], console = [],
      notifications = [], status_visible = True, clipboard = None, uploads = 0,
      now = ''T0''\<rparr>"

definition remote_abc :: "RemoteItem list" where
  "remote_abc =
     [\<lparr>remote_id = ''a'', remote_updated = ''1''\<rparr>,
      \<lparr>remote_id = ''b'', remote_updated = ''2''\<rparr>,
      \<lparr>remote_id = ''c'', remote_updated = ''3''\<rparr>]"

text \<open>Three remote items; of three documents, one resolves to \<^verbatim>\<open>b\<close>, one has no
  metadata and one has a link that is not a share link.\<close>

definition world_abc :: world where
  "world_abc =
     world0\<lparr>backend := Inr remote_abc,
            markdownFiles :=
              [\<lparr>file_path = ''plain.md''\<rparr>, \<lparr>file_path = ''note.md''\<rparr>,
               \<lparr>file_path = ''garbage.md''\<rparr>],
            fileCache :=
              [''note.md'' \<mapsto> linked_note ''https://host/b'',
               ''garbage.md'' \<mapsto> linked_note ''not a link'']\<rparr>"

text \<open>Two documents that both resolve to \<^verbatim>\<open>b\<close>.\<close>

definition world_two_documents :: world where
  "world_two_documents =
     world0\<lparr>backend := Inr remote_abc,
            markdownFiles := [\<lparr>file_path = ''first.md''\<rparr>, \<lparr>file_path = ''second.md''\<rparr>],
            fileCache :=
              [''first.md'' \<mapsto> linked_note ''https://host/b'',
               ''second.md'' \<mapsto> linked_note ''https://host/b'']\<rparr>"

text \<open>A backend that lists the identifier \<^verbatim>\<open>b\<close> twice.\<close>

definition world_two_items :: world where
  "world_two_items =
     world_two_documents
       \<lparr>backend :=
          Inr [\<lparr>remote_id = ''b'', remote_updated = ''2''\<rparr>,
               \<lparr>remote_id = ''b'', remote_updated = ''4''\<rparr>]\<rparr>"

definition world_offline :: world where
  "world_offline = world_abc\<lparr>backend := Inl (Error ''Failed to fetch'')\<rparr>"

text \<open>Share operations that show the status indicator and then reject: with the sentinel
  message, with another message, and with no reason at all (\<^verbatim>\<open>Promise.reject()\<close>).\<close>

definition share_unknown_error :: "Note \<Rightarrow> world \<Rightarrow> (js_value + unit) \<times> world" where
  "share_unknown_error note w =
     (Inl (Object (Error ''Unknown error'')), w\<lparr>status_visible := True\<rparr>)"

definition share_known_error :: "Note \<Rightarrow> world \<Rightarrow> (js_value + unit) \<times> world" where
  "share_known_error note w =
     (Inl (Object (Error ''Known error'')), w\<lparr>status_visible := True\<rparr>)"

definition share_undefined :: "Note \<Rightarrow> world \<Rightarrow> (js_value + unit) \<times> world" where
  "share_undefined note w = (Inl Undefined, w\<lparr>status_visible := True\<rparr>)"

text \<open>Collaborators of the share operation: a backend that names every note
  \<^verbatim>\<open>n1\<close>, and one that is down. The content counts as unchanged while it is the
  text that was shared.\<close>

definition env_ok :: ShareEnv where
  "env_ok =
     \<lparr>parse = parse_host, unchanged = (\<lambda>body r. body = ''body''),
      remote_upload = (\<lambda>n prior body. Inr (''n1'', ''https://host/n1'')),
      malformed_response = Error ''Malformed response'', clipboard_on_share = False,
      shared_message = \<lparr>status_text = ''Note shared'', status_type = Some StatusSuccess\<rparr>\<rparr>"

definition env_down :: ShareEnv where
  "env_down = env_ok\<lparr>remote_upload := (\<lambda>n prior body. Inl (Error ''Network error''))\<rparr>"

text \<open>Default settings without a user identifier, and a stand-in for the digest.\<close>

definition default_settings :: "string \<rightharpoonup> string" where
  "default_settings = [''uid'' \<mapsto> [], ''apiKey'' \<mapsto> [], ''yamlField'' \<mapsto> ''share'']"

definition digest :: "string \<Rightarrow> string" where
  "digest s = ''sha256:'' @ s"

definition document_D :: TFile where
  "document_D = \<lparr>file_path = ''D.md''\<rparr>"

definition options_none :: Note where
  "options_none = \<lparr>isForceUpload = False, isForceClipboard = False\<rparr>"

section \<open>Facts about the helpers\<close>

lemma find_row_None: "find_row P xs = None \<longleftrightarrow> (\<forall>x\<in>set xs. \<not> P x)"
  by (induction xs) auto

lemma find_row_Some:
  "find_row P xs = Some i \<longleftrightarrow> i < length xs \<and> P (xs ! i) \<and> (\<forall>j<i. \<not> P (xs ! j))"
proof (induction xs arbitrary: i)
  case Nil
  then show ?case by simp
next
  case (Cons x xs)
  show ?case
  proof (cases "P x")
    case True
    then show ?thesis by (cases i) auto
  next
    case False
    show ?thesis
    proof (cases i)
      case 0
      with False show ?thesis by auto
    next
      case (Suc k)
      have "(\<forall>j<Suc k. \<not> P ((x # xs) ! j)) \<longleftrightarrow> (\<forall>j<k. \<not> P (xs ! j))"
        using False by (auto simp: less_Suc_eq_0_disj)
      with False Suc Cons.IH [of k] show ?thesis by auto
    qed
  qed
qed

lemma find_row_map: "find_row (\<lambda>x. P (f x)) xs = find_row P (map f xs)"
  by (induction xs) auto

lemma annotate_linked_id:
  "annotate parseUrl w f ns =
     (case linked_id parseUrl w f of None \<Rightarrow> ns | Some k \<Rightarrow> set_path k (file_path f) ns)"
  by (auto simp: annotate_def linked_id_def set_path_def Let_def split: option.splits)

lemma set_path_ids: "map item_id (set_path k p ns) = map item_id ns"
  by (auto simp: set_path_def find_row_Some map_update list_update_same_conv split: option.splits)

lemma set_path_updated: "map updated (set_path k p ns) = map updated ns"
  by (auto simp: set_path_def find_row_Some map_update list_update_same_conv split: option.splits)

lemma annotate_ids: "map item_id (annotate parseUrl w f ns) = map item_id ns"
  by (simp add: annotate_linked_id set_path_ids split: option.splits)

lemma annotate_updated: "map updated (annotate parseUrl w f ns) = map updated ns"
  by (simp add: annotate_linked_id set_path_updated split: option.splits)

lemma fold_annotate_ids: "map item_id (fold (annotate parseUrl w) fs ns) = map item_id ns"
  by (induction fs arbitrary: ns) (simp_all add: annotate_ids)

lemma fold_annotate_updated: "map updated (fold (annotate parseUrl w) fs ns) = map updated ns"
  by (induction fs arbitrary: ns) (simp_all add: annotate_updated)

lemma find_row_ids:
  "map item_id xs = map item_id ns \<Longrightarrow>
     find_row (\<lambda>x. item_id x = k) xs = find_row (\<lambda>x. item_id x = k) ns"
  using find_row_map [of "\<lambda>i. i = k" item_id xs] find_row_map [of "\<lambda>i. i = k" item_id ns]
  by simp

lemma fold_annotate_nth:
  "j < length ns \<Longrightarrow>
     fold (annotate parseUrl w) fs ns ! j =
       (let ds = documents_of parseUrl w (item_id (ns ! j)) fs
        in if ds \<noteq> [] \<and> first_row ns j
           then (ns ! j)\<lparr>path := Some (file_path (last ds))\<rparr> else ns ! j)"
proof (induction fs rule: rev_induct)
  case Nil
  then show ?case by (simp add: documents_of_def)
next
  case (snoc f fs)
  define xs where "xs = fold (annotate parseUrl w) fs ns"
  have ids: "map item_id xs = map item_id ns"
    by (simp add: xs_def fold_annotate_ids)
  have len: "length xs = length ns"
    using ids by (metis length_map)
  have IH: "xs ! j =
       (let ds = documents_of parseUrl w (item_id (ns ! j)) fs
        in if ds \<noteq> [] \<and> first_row ns j
           then (ns ! j)\<lparr>path := Some (file_path (last ds))\<rparr> else ns ! j)"
    using snoc by (simp add: xs_def)
  have step: "fold (annotate parseUrl w) (fs @ [f]) ns = annotate parseUrl w f xs"
    by (simp add: xs_def)
  show ?case
  proof (cases "linked_id parseUrl w f")
    case None
    then have "documents_of parseUrl w (item_id (ns ! j)) (fs @ [f]) =
               documents_of parseUrl w (item_id (ns ! j)) fs"
      by (simp add: documents_of_def)
    moreover have "annotate parseUrl w f xs = xs"
      using None by (simp add: annotate_linked_id)
    ultimately show ?thesis unfolding step using IH by simp
  next
    case (Some k)
    show ?thesis
    proof (cases "find_row (\<lambda>x. item_id x = k) ns")
      case None
      then have "item_id (ns ! j) \<noteq> k"
        using snoc.prems by (auto simp: find_row_None)
      then have "documents_of parseUrl w (item_id (ns ! j)) (fs @ [f]) =
                 documents_of parseUrl w (item_id (ns ! j)) fs"
        using Some by (auto simp: documents_of_def)
      moreover have "annotate parseUrl w f xs = xs"
        using Some None find_row_ids [OF ids, of k] by (simp add: annotate_linked_id set_path_def)
      ultimately show ?thesis unfolding step using IH by simp
    next
      case found: (Some i)
      have ann: "annotate parseUrl w f xs = xs[i := (xs ! i)\<lparr>path := Some (file_path f)\<rparr>]"
        using Some found find_row_ids [OF ids, of k] by (simp add: annotate_linked_id set_path_def)
      have i: "i < length ns" "item_id (ns ! i) = k"
        using found by (auto simp: find_row_Some)
      show ?thesis
      proof (cases "j = i")
        case True
        have ds: "documents_of parseUrl w (item_id (ns ! j)) (fs @ [f]) =
                  documents_of parseUrl w (item_id (ns ! j)) fs @ [f]"
          using True i Some by (simp add: documents_of_def)
        have fr: "first_row ns j"
          using True i found by (simp add: first_row_def)
        have "(xs ! i)\<lparr>path := Some (file_path f)\<rparr> = (ns ! i)\<lparr>path := Some (file_path f)\<rparr>"
          using IH True by (simp add: Let_def)
        then show ?thesis
          unfolding step using ann ds fr True i len by (simp add: Let_def)
      next
        case False
        have nth: "annotate parseUrl w f xs ! j = xs ! j"
          using ann False by simp
        show ?thesis
        proof (cases "item_id (ns ! j) = k")
          case True
          then have "\<not> first_row ns j"
            using found False by (simp add: first_row_def)
          then show ?thesis unfolding step using IH nth by (simp add: Let_def)
        next
          case ne: False
          then have "documents_of parseUrl w (item_id (ns ! j)) (fs @ [f]) =
                     documents_of parseUrl w (item_id (ns ! j)) fs"
            using Some by (auto simp: documents_of_def)
          then show ?thesis unfolding step using IH nth by simp
        qed
      qed
    qed
  qed
qed

lemma annotate_requests [simp]: "annotate parseUrl (w\<lparr>requests := r\<rparr>) = annotate parseUrl w"
  by (rule ext)+ (simp add: annotate_def field_link_def)

lemma from_remote_fields [simp]:
  "item_id (from_remote r) = remote_id r"
  "updated (from_remote r) = remote_updated r"
  "path (from_remote r) = None"
  by (simp_all add: from_remote_def)

lemma getNotes_Inr:
  "backend w = Inr rs \<Longrightarrow>
     fst (getNotes parseUrl w) = fold (annotate parseUrl w) (markdownFiles w) (map from_remote rs)"
  by (simp add: getNotes_def api_get_def)

lemma getNotes_world:
  "snd (getNotes parseUrl w) =
     w\<lparr>requests := requests w @ [''GET /v1/account/notes''],
       console := console w @ (case backend w of Inl e \<Rightarrow> [e] | Inr rs \<Rightarrow> [])\<rparr>"
  by (cases "backend w") (simp_all add: getNotes_def api_get_def)

lemma linked_id_path:
  "file_path f = file_path g \<Longrightarrow> linked_id parseUrl w f = linked_id parseUrl w g"
  by (simp add: linked_id_def)

lemma first_row_iff:
  "j < length ns \<Longrightarrow> first_row ns j \<longleftrightarrow> (\<forall>i<j. item_id (ns ! i) \<noteq> item_id (ns ! j))"
  by (auto simp: first_row_def find_row_Some)

lemma getNotes_nth:
  assumes "backend w = Inr rs" and "j < length rs"
  shows "fst (getNotes parseUrl w) ! j =
     (let ds = documents_of parseUrl w (remote_id (rs ! j)) (markdownFiles w)
      in if ds \<noteq> [] \<and> (\<forall>i<j. remote_id (rs ! i) \<noteq> remote_id (rs ! j))
         then (from_remote (rs ! j))\<lparr>path := Some (file_path (last ds))\<rparr>
         else from_remote (rs ! j))"
proof -
  let ?ns = "map from_remote rs"
  have j: "j < length ?ns" using assms(2) by simp
  have "first_row ?ns j \<longleftrightarrow> (\<forall>i<j. remote_id (rs ! i) \<noteq> remote_id (rs ! j))"
    using assms(2) by (simp add: first_row_iff from_remote_def)
  then show ?thesis
    using fold_annotate_nth [OF j, of parseUrl w "markdownFiles w"] assms
    by (simp add: getNotes_Inr Let_def)
qed

lemma getNotes_ids:
  "backend w = Inr rs \<Longrightarrow> map item_id (fst (getNotes parseUrl w)) = map remote_id rs"
  by (simp add: getNotes_Inr fold_annotate_ids from_remote_def)

lemma getNotes_updated:
  "backend w = Inr rs \<Longrightarrow> map updated (fst (getNotes parseUrl w)) = map remote_updated rs"
  by (simp add: getNotes_Inr fold_annotate_updated from_remote_def)

lemma field_link_without [simp]: "field_link (without_link w f) = field_link w"
  by (simp add: field_link_def without_link_def)

lemma frontmatter_value_without:
  "frontmatter_value (fileCache (without_link w f) (file_path g)) (field_link w) =
     (if file_path g = file_path f then None
      else frontmatter_value (fileCache w (file_path g)) (field_link w))"
  by (auto simp: without_link_def frontmatter_value_def split: option.splits)

section \<open>Reconciliation\<close>

text \<open>
  C2, as amended. Suppose the backend's identifiers are pairwise distinct and no two
  documents of the vault have links that parse to the same identifier. Then the result
  holds exactly the fetched items, in the backend's order (same identifiers, same time
  stamps), an item carries a document's path if and only if that document's stored link
  parses to the item's identifier, and an item with no such document has no path.
\<close>

theorem getNotes_reconciliation:
  assumes fetched: "backend w = Inr rs"
    and remote: "distinct (map remote_id rs)"
    and local: "\<forall>f\<in>set (markdownFiles w). \<forall>g\<in>set (markdownFiles w).
                  linked_id parseUrl w f \<noteq> None \<and>
                  linked_id parseUrl w f = linked_id parseUrl w g
                    \<longrightarrow> file_path f = file_path g"
  shows "map item_id (fst (getNotes parseUrl w)) = map remote_id rs \<and>
         map updated (fst (getNotes parseUrl w)) = map remote_updated rs \<and>
         (\<forall>item\<in>set (fst (getNotes parseUrl w)). \<forall>f\<in>set (markdownFiles w).
            path item = Some (file_path f) \<longleftrightarrow> linked_id parseUrl w f = Some (item_id item)) \<and>
         (\<forall>item\<in>set (fst (getNotes parseUrl w)).
            (\<forall>f\<in>set (markdownFiles w). linked_id parseUrl w f \<noteq> Some (item_id item))
              \<longrightarrow> path item = None)"
proof -
  let ?res = "fst (getNotes parseUrl w)"
  let ?files = "markdownFiles w"
  have len: "length ?res = length rs"
    using getNotes_ids [OF fetched, of parseUrl] by (metis length_map)
  have row: "?res ! j =
       (let ds = documents_of parseUrl w (remote_id (rs ! j)) ?files
        in if ds \<noteq> [] then (from_remote (rs ! j))\<lparr>path := Some (file_path (last ds))\<rparr>
           else from_remote (rs ! j))" if j: "j < length rs" for j
  proof -
    have "\<forall>i<j. remote_id (rs ! i) \<noteq> remote_id (rs ! j)"
      using remote j by (auto simp: distinct_conv_nth)
    then show ?thesis using getNotes_nth [OF fetched j, of parseUrl] by simp
  qed
  have main: "(\<forall>f\<in>set ?files.
                 path item = Some (file_path f) \<longleftrightarrow> linked_id parseUrl w f = Some (item_id item)) \<and>
              ((\<forall>f\<in>set ?files. linked_id parseUrl w f \<noteq> Some (item_id item)) \<longrightarrow> path item = None)"
    if item: "item \<in> set ?res" for item
  proof -
    from item obtain j where j: "j < length rs" and nth: "?res ! j = item"
      using len by (auto simp: in_set_conv_nth)
    let ?k = "remote_id (rs ! j)"
    let ?ds = "documents_of parseUrl w ?k ?files"
    have k: "item_id item = ?k"
      using row [OF j] nth by (auto simp: Let_def from_remote_def split: if_splits)
    show ?thesis
    proof (cases "?ds = []")
      case True
      then have "path item = None"
        using row [OF j] nth by (auto simp: Let_def from_remote_def)
      moreover have "\<forall>f\<in>set ?files. linked_id parseUrl w f \<noteq> Some ?k"
        using True by (auto simp: documents_of_def filter_empty_conv)
      ultimately show ?thesis using k by simp
    next
      case False
      then have p: "path item = Some (file_path (last ?ds))"
        using row [OF j] nth by (auto simp: Let_def)
      have "last ?ds \<in> set ?ds" using False by simp
      then have l: "last ?ds \<in> set ?files" "linked_id parseUrl w (last ?ds) = Some ?k"
        by (auto simp: documents_of_def)
      have "path item = Some (file_path f) \<longleftrightarrow> linked_id parseUrl w f = Some (item_id item)"
        if f: "f \<in> set ?files" for f
      proof
        assume "path item = Some (file_path f)"
        then have "file_path f = file_path (last ?ds)" using p by simp
        then show "linked_id parseUrl w f = Some (item_id item)"
          using l k linked_id_path [of f "last ?ds" parseUrl w] by simp
      next
        assume "linked_id parseUrl w f = Some (item_id item)"
        then have "file_path f = file_path (last ?ds)"
          using local f l k by (metis option.distinct(1))
        then show "path item = Some (file_path f)" using p by simp
      qed
      moreover have "\<not> (\<forall>f\<in>set ?files. linked_id parseUrl w f \<noteq> Some (item_id item))"
        using l k by auto
      ultimately show ?thesis by blast
    qed
  qed
  show ?thesis
    using getNotes_ids [OF fetched, of parseUrl] getNotes_updated [OF fetched, of parseUrl] main by blast
qed

theorem getNotes_reconciliation_witness:
  "backend world_abc = Inr remote_abc \<and>
   distinct (map remote_id remote_abc) \<and>
   map (linked_id parse_host world_abc) (markdownFiles world_abc) = [None, Some ''b'', None] \<and>
   map item_id (fst (getNotes parse_host world_abc)) = [''a'', ''b'', ''c''] \<and>
   map updated (fst (getNotes parse_host world_abc)) = [''1'', ''2'', ''3''] \<and>
   map path (fst (getNotes parse_host world_abc)) = [None, Some ''note.md'', None]"
proof -
  have h1: "backend world_abc = Inr remote_abc"
    by (simp add: world_abc_def)
  have h2: "distinct (map remote_id remote_abc)"
    by (simp add: remote_abc_def)
  have l: "map (linked_id parse_host world_abc) (markdownFiles world_abc) =
             [None, Some ''b'', None]"
    by (simp add: world_abc_def world0_def linked_id_def frontmatter_value_def field_link_def
        linked_note_def parse_host_def)
  have h3: "\<forall>f\<in>set (markdownFiles world_abc). \<forall>g\<in>set (markdownFiles world_abc).
              linked_id parse_host world_abc f \<noteq> None \<and>
              linked_id parse_host world_abc f = linked_id parse_host world_abc g
                \<longrightarrow> file_path f = file_path g"
    by (simp add: world_abc_def world0_def linked_id_def frontmatter_value_def field_link_def
        linked_note_def parse_host_def)
  have p: "map path (fst (getNotes parse_host world_abc)) = [None, Some ''note.md'', None]"
    by (simp add: getNotes_def api_get_def world_abc_def world0_def remote_abc_def
        from_remote_def annotate_def frontmatter_value_def field_link_def linked_note_def
        parse_host_def)
  show ?thesis
    using h1 h2 l p getNotes_reconciliation [OF h1 h2 h3] by (simp add: remote_abc_def)
qed

text \<open>
  The claim as it stands fails when two documents resolve to the same identifier: the
  link of \<^verbatim>\<open>first.md\<close> parses to \<^verbatim>\<open>b\<close>, and item \<^verbatim>\<open>b\<close> carries the path of
  \<^verbatim>\<open>second.md\<close> instead. It also fails when the backend lists an identifier twice:
  the second item \<^verbatim>\<open>b\<close> carries no path, although documents resolve to it.
\<close>

theorem getNotes_reconciliation_counterexample:
  "\<lparr>file_path = ''first.md''\<rparr> \<in> set (markdownFiles world_two_documents) \<and>
   linked_id parse_host world_two_documents \<lparr>file_path = ''first.md''\<rparr> = Some ''b'' \<and>
   fst (getNotes parse_host world_two_documents) =
     [\<lparr>item_id = ''a'', updated = ''1'', path = None\<rparr>,
      \<lparr>item_id = ''b'', updated = ''2'', path = Some ''second.md''\<rparr>,
      \<lparr>item_id = ''c'', updated = ''3'', path = None\<rparr>] \<and>
   \<not> (path (fst (getNotes parse_host world_two_documents) ! 1)
          = Some (file_path \<lparr>file_path = ''first.md''\<rparr>)
        \<longleftrightarrow> linked_id parse_host world_two_documents \<lparr>file_path = ''first.md''\<rparr>
          = Some (item_id (fst (getNotes parse_host world_two_documents) ! 1))) \<and>
   fst (getNotes parse_host world_two_items) =
     [\<lparr>item_id = ''b'', updated = ''2'', path = Some ''second.md''\<rparr>,
      \<lparr>item_id = ''b'', updated = ''4'', path = None\<rparr>]"
  by (simp add: getNotes_def api_get_def world_two_items_def world_two_documents_def world0_def
      remote_abc_def from_remote_def annotate_def linked_id_def frontmatter_value_def
      field_link_def linked_note_def parse_host_def)

text \<open>
  C3. Whenever the request for the remote list fails, \<open>getNotes\<close> returns the empty
  sequence and logs the error on the console. It does not raise: the \<^verbatim>\<open>catch\<close>
  covers the whole body, and \<open>getNotes\<close> has no error result.
\<close>

theorem getNotes_fetch_failure:
  "backend w = Inl e \<Longrightarrow>
     fst (getNotes parseUrl w) = [] \<and> console (snd (getNotes parseUrl w)) = console w @ [e]"
  by (simp add: getNotes_def api_get_def)

theorem getNotes_fetch_failure_witness:
  "backend world_offline = Inl (Error ''Failed to fetch'') \<and>
   fst (getNotes parse_host world_offline) = [] \<and>
   console (snd (getNotes parse_host world_offline)) = [Error ''Failed to fetch'']"
proof -
  have h: "backend world_offline = Inl (Error ''Failed to fetch'')"
    by (simp add: world_offline_def)
  have c: "console world_offline = []"
    by (simp add: world_offline_def world_abc_def world0_def)
  show ?thesis
    using h c getNotes_fetch_failure [OF h, of parse_host] by simp
qed

text \<open>
  C5. Reconciliation changes nothing that persists. The state after \<open>getNotes\<close> is
  the state before it with one more request sent (a \<^verbatim>\<open>GET\<close>) and, when the request
  failed, one more line on the console: the vault, every document's metadata, the settings
  and the backend's items are as they were. The items of the result keep the identifier and
  the time stamp that the backend sent; only the local \<^verbatim>\<open>path\<close> of the returned
  copies is filled in.
\<close>

theorem getNotes_read_only:
  "snd (getNotes parseUrl w) =
     w\<lparr>requests := requests w @ [''GET /v1/account/notes''],
       console := console w @ (case backend w of Inl e \<Rightarrow> [e] | Inr rs \<Rightarrow> [])\<rparr> \<and>
   (case backend w of
      Inl e \<Rightarrow> fst (getNotes parseUrl w) = []
    | Inr rs \<Rightarrow>
        map item_id (fst (getNotes parseUrl w)) = map remote_id rs \<and>
        map updated (fst (getNotes parseUrl w)) = map remote_updated rs)"
proof (cases "backend w")
  case (Inl e)
  then show ?thesis by (simp add: getNotes_def api_get_def)
next
  case (Inr rs)
  then show ?thesis
    using getNotes_ids [OF Inr, of parseUrl] getNotes_updated [OF Inr, of parseUrl]
    by (simp add: getNotes_world)
qed

text \<open>
  C6. A document whose link field holds a string that the parser does not recognise is
  skipped: its step of the loop leaves the list as it is, so it annotates no item, and the
  whole run gives what it gives when the link is removed from that document's frontmatter,
  with the same console output.
\<close>

theorem getNotes_unparseable_link:
  assumes stored: "frontmatter_value (fileCache w (file_path f)) (field_link w) = Some l"
    and garbage: "parseUrl l = None"
  shows "annotate parseUrl w f ns = ns \<and>
         linked_id parseUrl w f = None \<and>
         frontmatter_value (fileCache (without_link w f) (file_path f)) (field_link w) = None \<and>
         getNotes parseUrl w =
           (fst (getNotes parseUrl (without_link w f)),
            (snd (getNotes parseUrl (without_link w f)))\<lparr>fileCache := fileCache w\<rparr>)"
proof -
  let ?w = "without_link w f"
  have none: "linked_id parseUrl w g = None" if "file_path g = file_path f" for g
    using that stored garbage by (simp add: linked_id_def)
  have same: "annotate parseUrl ?w g = annotate parseUrl w g" for g
    using none [of g]
    by (rule_tac ext) (simp add: annotate_linked_id linked_id_def frontmatter_value_without)
  have ann: "annotate parseUrl ?w = annotate parseUrl w"
    using same by (rule ext)
  have w: "markdownFiles ?w = markdownFiles w" "backend ?w = backend w"
    "requests ?w = requests w" "console ?w = console w"
    by (simp_all add: without_link_def)
  have "getNotes parseUrl w =
           (fst (getNotes parseUrl ?w), (snd (getNotes parseUrl ?w))\<lparr>fileCache := fileCache w\<rparr>)"
  proof (cases "backend w")
    case (Inl e)
    then show ?thesis
      by (simp add: getNotes_def api_get_def without_link_def)
  next
    case (Inr rs)
    have "fst (getNotes parseUrl ?w) = fst (getNotes parseUrl w)"
      using Inr w by (simp add: getNotes_Inr ann)
    moreover have "(snd (getNotes parseUrl ?w))\<lparr>fileCache := fileCache w\<rparr> =
                   snd (getNotes parseUrl w)"
      by (simp add: getNotes_world w) (simp add: without_link_def)
    ultimately show ?thesis by (simp add: prod_eq_iff)
  qed
  moreover have "linked_id parseUrl w f = None"
    using stored garbage by (simp add: linked_id_def)
  ultimately show ?thesis
    using none [of f] by (simp add: annotate_linked_id frontmatter_value_without)
qed

theorem getNotes_unparseable_link_witness:
  "frontmatter_value (fileCache world_abc ''garbage.md'') (field_link world_abc) =
     Some ''not a link'' \<and>
   parse_host ''not a link'' = None \<and>
   fst (getNotes parse_host world_abc) =
     fst (getNotes parse_host (without_link world_abc \<lparr>file_path = ''garbage.md''\<rparr>))"
proof -
  have h1: "frontmatter_value (fileCache world_abc (file_path \<lparr>file_path = ''garbage.md''\<rparr>))
              (field_link world_abc) = Some ''not a link''"
    by (simp add: world_abc_def world0_def frontmatter_value_def field_link_def linked_note_def)
  have h2: "parse_host ''not a link'' = None"
    by (simp add: parse_host_def)
  show ?thesis
    using h1 h2 getNotes_unparseable_link [where parseUrl = parse_host and ns = "[]", OF h1 h2]
    by (simp add: prod_eq_iff)
qed

text \<open>
  C10. When the links of several documents parse to the identifier of item \<open>j\<close>,
  and no earlier item has that identifier, item \<open>j\<close> ends up with the path of the
  last such document in vault order. An item whose identifier already occurs earlier in
  the fetched list is never annotated: it is returned as fetched, without a path.
\<close>

theorem getNotes_last_document_first_item:
  assumes "backend w = Inr rs" and "j < length rs"
  shows "(documents_of parseUrl w (remote_id (rs ! j)) (markdownFiles w) \<noteq> [] \<and>
          (\<forall>i<j. remote_id (rs ! i) \<noteq> remote_id (rs ! j)) \<longrightarrow>
            path (fst (getNotes parseUrl w) ! j) =
              Some (file_path (last (documents_of parseUrl w (remote_id (rs ! j)) (markdownFiles w))))) \<and>
         ((\<exists>i<j. remote_id (rs ! i) = remote_id (rs ! j)) \<longrightarrow>
            fst (getNotes parseUrl w) ! j = from_remote (rs ! j) \<and>
            path (fst (getNotes parseUrl w) ! j) = None)"
  using getNotes_nth [OF assms, of parseUrl] by (auto simp: Let_def from_remote_def)

theorem getNotes_last_document_first_item_witness:
  "backend world_two_items =
     Inr [\<lparr>remote_id = ''b'', remote_updated = ''2''\<rparr>,
          \<lparr>remote_id = ''b'', remote_updated = ''4''\<rparr>] \<and>
   documents_of parse_host world_two_items ''b'' (markdownFiles world_two_items) =
     [\<lparr>file_path = ''first.md''\<rparr>, \<lparr>file_path = ''second.md''\<rparr>] \<and>
   path (fst (getNotes parse_host world_two_items) ! 0) = Some ''second.md'' \<and>
   path (fst (getNotes parse_host world_two_items) ! 1) = None"
proof -
  let ?rs = "[\<lparr>remote_id = ''b'', remote_updated = ''2''\<rparr>,
              \<lparr>remote_id = ''b'', remote_updated = ''4''\<rparr>]"
  have h: "backend world_two_items = Inr ?rs"
    by (simp add: world_two_items_def)
  have d: "documents_of parse_host world_two_items ''b'' (markdownFiles world_two_items) =
             [\<lparr>file_path = ''first.md''\<rparr>, \<lparr>file_path = ''second.md''\<rparr>]"
    by (simp add: documents_of_def world_two_items_def world_two_documents_def world0_def
        linked_id_def frontmatter_value_def field_link_def linked_note_def parse_host_def)
  have r0: "(0::nat) < length ?rs" and r1: "(1::nat) < length ?rs"
    by simp_all
  show ?thesis
    using h d getNotes_last_document_first_item [OF h r0, of parse_host]
      getNotes_last_document_first_item [OF h r1, of parse_host]
    by simp
qed

section \<open>The share command\<close>

lemma uploadNote_unfold:
  "uploadNote note_share fu fc w =
     (case note_share \<lparr>isForceUpload = fu, isForceClipboard = fc\<rparr> w of
        (Inr u, w1) \<Rightarrow> (Inr (), status_hide w1)
      | (Inl e, w1) \<Rightarrow>
          (case read_message e of
             Inl type_error \<Rightarrow> (Inl type_error, w1)
           | Inr m \<Rightarrow>
               (Inr (),
                status_hide
                  (if m = Some ''Unknown error'' then
                     new_StatusMessage
                       ''There was an error uploading the note, please try again.''
                       (Some StatusError) w1
                   else w1))))"
  by (cases fu; cases fc) (simp_all add: uploadNote_def)

text \<open>
  Whenever the share operation resolves, or rejects with a value other than
  \<^verbatim>\<open>undefined\<close> and \<^verbatim>\<open>null\<close>, \<open>uploadNote\<close> resolves with the status
  indicator hidden.
\<close>

lemma uploadNote_hides_status_unless_nullish:
  assumes "fst (note_share \<lparr>isForceUpload = fu, isForceClipboard = fc\<rparr> w) \<notin> {Inl Undefined, Inl Null}"
  shows "fst (uploadNote note_share fu fc w) = Inr () \<and> \<not> status_visible (snd (uploadNote note_share fu fc w))"
proof (cases "note_share \<lparr>isForceUpload = fu, isForceClipboard = fc\<rparr> w")
  case (Pair r w1)
  show ?thesis
  proof (cases r)
    case (Inr u)
    with Pair show ?thesis by (simp add: uploadNote_unfold status_hide_def)
  next
    case (Inl e)
    with Pair assms show ?thesis
      by (cases e) (simp_all add: uploadNote_unfold status_hide_def)
  qed
qed

text \<open>
  C1, as amended. When the share operation fails with the message
  \<^verbatim>\<open>Unknown error\<close>, \<open>uploadNote\<close> emits the generic error notification. A
  failure with any other message is swallowed: \<open>uploadNote\<close> emits no notification
  for it, hides the status indicator and returns normally. No error that the share
  operation rejects with reaches the caller of \<open>uploadNote\<close>.
\<close>

theorem uploadNote_failure:
  assumes "note_share \<lparr>isForceUpload = forceUpload, isForceClipboard = forceClipboard\<rparr> w =
             (Inl (Object e), w1)"
  shows "fst (uploadNote note_share forceUpload forceClipboard w) = Inr () \<and>
         (message e = ''Unknown error'' \<longrightarrow>
            notifications (snd (uploadNote note_share forceUpload forceClipboard w)) =
              notifications w1 @
                [\<lparr>status_text = ''There was an error uploading the note, please try again.'',
                  status_type = Some StatusError\<rparr>]) \<and>
         (message e \<noteq> ''Unknown error'' \<longrightarrow>
            snd (uploadNote note_share forceUpload forceClipboard w) = status_hide w1 \<and>
            notifications (snd (uploadNote note_share forceUpload forceClipboard w)) =
              notifications w1)"
  using assms by (simp add: uploadNote_unfold status_hide_def new_StatusMessage_def)

theorem uploadNote_failure_witness:
  "share_unknown_error \<lparr>isForceUpload = False, isForceClipboard = False\<rparr> world0 =
     (Inl (Object (Error ''Unknown error'')), world0\<lparr>status_visible := True\<rparr>) \<and>
   share_known_error \<lparr>isForceUpload = True, isForceClipboard = False\<rparr> world0 =
     (Inl (Object (Error ''Known error'')), world0\<lparr>status_visible := True\<rparr>) \<and>
   notifications (snd (uploadNote share_unknown_error False False world0)) =
     [\<lparr>status_text = ''There was an error uploading the note, please try again.'',
       status_type = Some StatusError\<rparr>] \<and>
   notifications (snd (uploadNote share_known_error True False world0)) = [] \<and>
   fst (uploadNote share_known_error True False world0) = Inr ()"
proof -
  have h1: "share_unknown_error \<lparr>isForceUpload = False, isForceClipboard = False\<rparr> world0 =
     (Inl (Object (Error ''Unknown error'')), world0\<lparr>status_visible := True\<rparr>)"
    by (simp add: share_unknown_error_def)
  have h2: "share_known_error \<lparr>isForceUpload = True, isForceClipboard = False\<rparr> world0 =
     (Inl (Object (Error ''Known error'')), world0\<lparr>status_visible := True\<rparr>)"
    by (simp add: share_known_error_def)
  have n: "notifications world0 = []"
    by (simp add: world0_def)
  show ?thesis
    using h1 h2 n uploadNote_failure [where note_share = share_unknown_error, OF h1]
      uploadNote_failure [where note_share = share_known_error, OF h2]
    by (simp add: status_hide_def)
qed

text \<open>
  The claim as it stands fails for a failure whose message is not the sentinel: the share
  operation rejects with \<^verbatim>\<open>Known error\<close>, and \<open>uploadNote\<close> resolves.
\<close>

theorem uploadNote_failure_counterexample:
  "fst (share_known_error \<lparr>isForceUpload = False, isForceClipboard = False\<rparr> world0) =
     Inl (Object (Error ''Known error'')) \<and>
   message (Error ''Known error'') \<noteq> ''Unknown error'' \<and>
   fst (uploadNote share_known_error False False world0) = Inr () \<and>
   fst (uploadNote share_known_error False False world0) \<noteq> Inl (Object (Error ''Known error''))"
  by (simp add: uploadNote_def share_known_error_def)

text \<open>
  C7. The status indicator is meant to be hidden on every exit path, but
  \<^verbatim>\<open>note.status.hide()\<close> stands after the \<^verbatim>\<open>try\<close> statement, not in a
  \<^verbatim>\<open>finally\<close>. When the share operation shows the indicator and then rejects with
  \<^verbatim>\<open>undefined\<close>, the access \<^verbatim>\<open>e.message\<close> in the \<^verbatim>\<open>catch\<close> throws:
  \<open>uploadNote\<close> rejects with the \<^verbatim>\<open>TypeError\<close>, and the indicator is still on
  screen.
\<close>

theorem uploadNote_status_left_visible:
  "share_undefined \<lparr>isForceUpload = False, isForceClipboard = False\<rparr> world0 =
     (Inl Undefined, world0\<lparr>status_visible := True\<rparr>) \<and>
   fst (uploadNote share_undefined False False world0) =
     Inl (Object (Error ''Cannot read properties of undefined (reading 'message')'')) \<and>
   status_visible (snd (uploadNote share_undefined False False world0))"
  by (simp add: uploadNote_def share_undefined_def)

text \<open>
  C9. When the file's frontmatter holds a value under \<^verbatim>\<open>"<yamlField>_link"\<close> (a
  truthy one, which is what \<^verbatim>\<open>if (shareLink)\<close> tests: an empty string counts as no
  value), \<open>copyShareLink\<close> writes exactly that value to the clipboard, shows a
  message and does nothing else: the share operation is not invoked. Otherwise it is
  \<open>uploadNote\<close> with \<^verbatim>\<open>forceUpload = false\<close> and
  \<^verbatim>\<open>forceClipboard = true\<close>, which invokes the share operation with these two
  switches.
\<close>

theorem copyShareLink_cases:
  "(truthy (frontmatter_value (fileCache w (file_path file)) (field_link w)) \<longrightarrow>
      copyShareLink note_share file w =
        (Inr (),
         w\<lparr>clipboard := frontmatter_value (fileCache w (file_path file)) (field_link w),
           notifications := notifications w @
             [\<lparr>status_text = ''Shared link copied to clipboard'', status_type = None\<rparr>]\<rparr>)) \<and>
   (\<not> truthy (frontmatter_value (fileCache w (file_path file)) (field_link w)) \<longrightarrow>
      copyShareLink note_share file w = uploadNote note_share False True w \<and>
      copyShareLink note_share file w =
        (case note_share \<lparr>isForceUpload = False, isForceClipboard = True\<rparr> w of
           (Inr u, w1) \<Rightarrow> (Inr (), status_hide w1)
         | (Inl e, w1) \<Rightarrow>
             (case read_message e of
                Inl type_error \<Rightarrow> (Inl type_error, w1)
              | Inr m \<Rightarrow>
                  (Inr (),
                   status_hide
                     (if m = Some ''Unknown error'' then
                        new_StatusMessage
                          ''There was an error uploading the note, please try again.''
                          (Some StatusError) w1
                      else w1)))))"
proof (cases "frontmatter_value (fileCache w (file_path file)) (field_link w)")
  case None
  then show ?thesis
    using uploadNote_unfold [of note_share False True w]
    by (simp add: copyShareLink_def field_link_def)
next
  case (Some l)
  then show ?thesis
    using uploadNote_unfold [of note_share False True w]
    by (simp add: copyShareLink_def field_link_def new_StatusMessage_def)
qed

theorem copyShareLink_cases_witness:
  "\<not> truthy (frontmatter_value (fileCache world0 (file_path document_D)) (field_link world0)) \<and>
   copyShareLink (spec_share env_ok document_D ''body'') document_D world0 =
     uploadNote (spec_share env_ok document_D ''body'') False True world0 \<and>
   truthy (frontmatter_value (fileCache world_abc (file_path \<lparr>file_path = ''note.md''\<rparr>))
             (field_link world_abc)) \<and>
   clipboard (snd (copyShareLink (spec_share env_ok document_D ''body'')
                     \<lparr>file_path = ''note.md''\<rparr> world_abc)) = Some ''https://host/b'' \<and>
   uploads (snd (copyShareLink (spec_share env_ok document_D ''body'')
                   \<lparr>file_path = ''note.md''\<rparr> world_abc)) = 0"
proof -
  have h1: "\<not> truthy (frontmatter_value (fileCache world0 (file_path document_D))
                        (field_link world0))"
    by (simp add: world0_def frontmatter_value_def)
  have h2: "frontmatter_value (fileCache world_abc (file_path \<lparr>file_path = ''note.md''\<rparr>))
             (field_link world_abc) = Some ''https://host/b''"
    by (simp add: world_abc_def world0_def frontmatter_value_def field_link_def linked_note_def)
  have u: "uploads world_abc = 0"
    by (simp add: world_abc_def world0_def)
  show ?thesis
    using h1 h2 u
      copyShareLink_cases [of world0 document_D "spec_share env_ok document_D ''body''"]
      copyShareLink_cases [of world_abc "\<lparr>file_path = ''note.md''\<rparr>"
        "spec_share env_ok document_D ''body''"]
    by simp
qed

section \<open>Loading the plugin\<close>

text \<open>
  C8. On load, when the loaded settings have no user identifier (\<^verbatim>\<open>uid\<close> is
  undefined or the empty string, which is what the guard \<^verbatim>\<open>!this.settings.uid\<close>
  tests), \<^verbatim>\<open>uid\<close> is set to the hash of the time and random seed and the settings
  are saved. When they have one, loading leaves the settings and the saved data as they
  are. So the identifier is minted once: a later load, at any time and with any random
  number, keeps it.
\<close>

theorem onload_uid:
  "(\<not> truthy (settings (loadSettings DEFAULT_SETTINGS w) ''uid'') \<longrightarrow>
      settings (onload DEFAULT_SETTINGS hash date_now math_random w) =
        (settings (loadSettings DEFAULT_SETTINGS w))(''uid'' \<mapsto> hash (date_now @ math_random)) \<and>
      data (onload DEFAULT_SETTINGS hash date_now math_random w) =
        Some (settings (onload DEFAULT_SETTINGS hash date_now math_random w))) \<and>
   (truthy (settings (loadSettings DEFAULT_SETTINGS w) ''uid'') \<longrightarrow>
      settings (onload DEFAULT_SETTINGS hash date_now math_random w) =
        settings (loadSettings DEFAULT_SETTINGS w) \<and>
      data (onload DEFAULT_SETTINGS hash date_now math_random w) = data w) \<and>
   (truthy (settings (onload DEFAULT_SETTINGS hash date_now math_random w) ''uid'') \<longrightarrow>
      settings (onload DEFAULT_SETTINGS hash date_now' math_random'
                 (onload DEFAULT_SETTINGS hash date_now math_random w)) ''uid'' =
        settings (onload DEFAULT_SETTINGS hash date_now math_random w) ''uid'' \<and>
      data (onload DEFAULT_SETTINGS hash date_now' math_random'
             (onload DEFAULT_SETTINGS hash date_now math_random w)) =
        data (onload DEFAULT_SETTINGS hash date_now math_random w))"
proof -
  let ?w1 = "loadSettings DEFAULT_SETTINGS w"
  let ?w' = "onload DEFAULT_SETTINGS hash date_now math_random w"
  have minted: "settings ?w' = (settings ?w1)(''uid'' \<mapsto> hash (date_now @ math_random)) \<and>
                data ?w' = Some (settings ?w')"
    if "\<not> truthy (settings ?w1 ''uid'')"
    using that by (simp add: onload_def saveSettings_def Let_def)
  have kept: "settings ?w' = settings ?w1 \<and> data ?w' = data w"
    if "truthy (settings ?w1 ''uid'')"
    using that by (simp add: onload_def Let_def) (simp add: loadSettings_def)
  have reload: "settings (loadSettings DEFAULT_SETTINGS ?w') ''uid'' = settings ?w' ''uid''"
    if t: "truthy (settings ?w' ''uid'')"
  proof (cases "truthy (settings ?w1 ''uid'')")
    case True
    with kept show ?thesis by (simp add: loadSettings_def)
  next
    case False
    from t obtain u where "settings ?w' ''uid'' = Some u"
      by (cases "settings ?w' ''uid''") simp_all
    with minted [OF False] show ?thesis
      by (simp add: loadSettings_def map_add_def)
  qed
  have again: "settings (onload DEFAULT_SETTINGS hash date_now' math_random' ?w') ''uid'' =
                 settings ?w' ''uid'' \<and>
               data (onload DEFAULT_SETTINGS hash date_now' math_random' ?w') = data ?w'"
    if t: "truthy (settings ?w' ''uid'')"
  proof -
    have "truthy (settings (loadSettings DEFAULT_SETTINGS ?w') ''uid'')"
      using reload [OF t] t by simp
    then show ?thesis
      using reload [OF t]
      by (simp add: onload_def [of _ _ date_now' math_random'] Let_def)
         (simp add: loadSettings_def)
  qed
  show ?thesis using minted kept again by blast
qed

theorem onload_uid_witness:
  "\<not> truthy (settings (loadSettings default_settings world0) ''uid'') \<and>
   settings (onload default_settings digest ''1700000000000'' ''0.25'' world0) ''uid'' =
     Some ''sha256:17000000000000.25'' \<and>
   truthy (settings (loadSettings default_settings
             (onload default_settings digest ''1700000000000'' ''0.25'' world0)) ''uid'') \<and>
   settings (onload default_settings digest ''1800000000000'' ''0.75''
              (onload default_settings digest ''1700000000000'' ''0.25'' world0)) ''uid'' =
     Some ''sha256:17000000000000.25'' \<and>
   data (onload default_settings digest ''1800000000000'' ''0.75''
          (onload default_settings digest ''1700000000000'' ''0.25'' world0)) =
     data (onload default_settings digest ''1700000000000'' ''0.25'' world0)"
proof -
  define w1 where "w1 = onload default_settings digest ''1700000000000'' ''0.25'' world0"
  define w2 where "w2 = onload default_settings digest ''1800000000000'' ''0.75'' w1"
  note first = onload_uid [of default_settings world0 digest "''1700000000000''" "''0.25''"
      "''1800000000000''" "''0.75''", folded w1_def, folded w2_def]
  note second = onload_uid [of default_settings w1 digest "''1800000000000''" "''0.75''"
      "''1800000000000''" "''0.75''", folded w2_def]
  have h: "\<not> truthy (settings (loadSettings default_settings world0) ''uid'')"
    by (simp add: loadSettings_def default_settings_def world0_def)
  have m: "settings w1 =
             (settings (loadSettings default_settings world0))
               (''uid'' \<mapsto> digest (''1700000000000'' @ ''0.25''))"
    and d: "data w1 = Some (settings w1)"
    using first h by blast+
  have u: "settings w1 ''uid'' = Some ''sha256:17000000000000.25''"
    unfolding m by (simp add: digest_def)
  have l: "settings (loadSettings default_settings w1) ''uid'' = settings w1 ''uid''"
    unfolding loadSettings_def using d u by (simp add: map_add_def)
  have t: "truthy (settings (loadSettings default_settings w1) ''uid'')"
    unfolding l u by simp
  have k: "settings w2 = settings (loadSettings default_settings w1)" and k': "data w2 = data w1"
    using second t by blast+
  have "settings w2 ''uid'' = Some ''sha256:17000000000000.25''"
    unfolding k l u ..
  with h t k' show ?thesis
    unfolding w2_def w1_def using u [unfolded w1_def] by blast
qed

section \<open>Sharing twice\<close>

lemma field_names_distinct:
  "field_id w \<noteq> field_link w" "field_id w \<noteq> field_updated w" "field_link w \<noteq> field_updated w"
  "field_link w \<noteq> field_id w" "field_updated w \<noteq> field_id w" "field_updated w \<noteq> field_link w"
  by (simp_all add: field_id_def field_link_def field_updated_def)

lemma store_write_fields [simp]:
  "field_id (store_write file r w) = field_id w"
  "field_link (store_write file r w) = field_link w"
  "field_updated (store_write file r w) = field_updated w"
  by (simp_all add: store_write_def field_id_def field_link_def field_updated_def Let_def)

lemma store_write_frontmatter:
  "frontmatter_value (fileCache (store_write file r w) (file_path file)) name =
     (if name = field_updated w then Some (record_updated r)
      else if name = field_link w then Some (link r)
      else if name = field_id w then Some (record_id r)
      else frontmatter_value (fileCache w (file_path file)) name)"
  by (auto simp: store_write_def frontmatter_value_def Let_def split: option.splits)

lemma store_read_write:
  "parse env (link r) = Some parsed \<Longrightarrow> store_read env (store_write file r w) file = Some r"
  by (simp add: store_read_def store_write_frontmatter field_names_distinct)

lemma store_read_cong:
  assumes "fileCache w' = fileCache w" and "settings w' = settings w"
  shows "store_read env w' file = store_read env w file"
  unfolding store_read_def field_id_def field_link_def field_updated_def assms ..

lemma store_read_clipboard_step [simp]:
  "store_read env (clipboard_step env' note l w) file = store_read env w file"
  by (rule store_read_cong) (simp_all add: clipboard_step_def)

lemma store_read_uploads [simp]:
  "store_read env (w\<lparr>uploads := n\<rparr>) file = store_read env w file"
  by (rule store_read_cong) simp_all

lemma uploads_clipboard_step [simp]:
  "uploads (clipboard_step env note l w) = uploads w"
  by (simp add: clipboard_step_def)

lemma uploads_store_write [simp]:
  "uploads (store_write file r w) = uploads w"
  by (simp add: store_write_def Let_def)

lemma share_upload_success:
  assumes "share_upload env file body note prior w = (Inr (), w1)"
  shows "\<exists>r. store_read env w1 file = Some r \<and> uploads w1 = Suc (uploads w)"
  using assms
  by (auto simp: share_upload_def Let_def store_read_write split: sum.splits option.splits prod.splits)

lemma share_success:
  assumes "share env file body note w = (Inr (), w1)"
  shows "\<exists>r. store_read env w1 file = Some r \<and> uploads w1 \<le> Suc (uploads w)"
proof (cases "store_read env w file")
  case None
  then have "share_upload env file body note None w = (Inr (), w1)"
    using assms by (simp add: share_def)
  from share_upload_success [OF this] show ?thesis by auto
next
  case (Some r)
  show ?thesis
  proof (cases "\<not> isForceUpload note \<and> unchanged env body r")
    case True
    then have "w1 = clipboard_step env note (link r) w"
      using assms Some by (simp add: share_def)
    then show ?thesis using Some by simp
  next
    case False
    then have "share_upload env file body note (Some (record_id r)) w = (Inr (), w1)"
      using assms Some by (auto simp: share_def)
    from share_upload_success [OF this] show ?thesis by auto
  qed
qed

text \<open>
  C4, as amended. Suppose a first call of \<^verbatim>\<open>share()\<close> succeeds, and the content is
  judged unchanged against the record that is stored afterwards. Then a second call
  without \<^verbatim>\<open>forceUpload\<close> sends nothing to the backend, so that the two calls
  together send at most one upload, and it succeeds with the stored record, and so the
  stored link, as the first call left it.
\<close>

theorem share_twice:
  assumes first: "share env file body note1 w = (Inr (), w1)"
    and second: "\<not> isForceUpload note2"
    and same: "\<forall>r. store_read env w1 file = Some r \<longrightarrow> unchanged env body r"
  shows "\<exists>r. store_read env w1 file = Some r \<and>
             share env file body note2 w1 = (Inr (), clipboard_step env note2 (link r) w1) \<and>
             uploads (snd (share env file body note2 w1)) = uploads w1 \<and>
             uploads (snd (share env file body note2 w1)) \<le> Suc (uploads w) \<and>
             store_read env (snd (share env file body note2 w1)) file = Some r"
proof -
  from share_success [OF first] obtain r
    where r: "store_read env w1 file = Some r" and u: "uploads w1 \<le> Suc (uploads w)"
    by blast
  have "unchanged env body r" using same r by simp
  then have "share env file body note2 w1 = (Inr (), clipboard_step env note2 (link r) w1)"
    using r second by (simp add: share_def)
  then show ?thesis using r u by simp
qed

theorem share_twice_witness:
  "fst (share env_ok document_D ''body'' options_none world0) = Inr () \<and>
   \<not> isForceUpload options_none \<and>
   store_read env_ok (snd (share env_ok document_D ''body'' options_none world0)) document_D =
     Some \<lparr>record_id = ''n1'', link = ''https://host/n1'', record_updated = ''T0''\<rparr> \<and>
   uploads (snd (share env_ok document_D ''body'' options_none
                  (snd (share env_ok document_D ''body'' options_none world0)))) = 1 \<and>
   store_read env_ok
     (snd (share env_ok document_D ''body'' options_none
            (snd (share env_ok document_D ''body'' options_none world0)))) document_D =
     Some \<lparr>record_id = ''n1'', link = ''https://host/n1'', record_updated = ''T0''\<rparr>"
proof -
  define w1 where "w1 = snd (share env_ok document_D ''body'' options_none world0)"
  let ?r = "\<lparr>record_id = ''n1'', link = ''https://host/n1'', record_updated = ''T0''\<rparr>"
  have run: "share env_ok document_D ''body'' options_none world0 =
               (Inr (), store_write document_D ?r (world0\<lparr>uploads := 1\<rparr>))"
    by (simp add: share_def share_upload_def store_read_def env_ok_def options_none_def
        world0_def frontmatter_value_def clipboard_step_def parse_host_def)
  have first: "share env_ok document_D ''body'' options_none world0 = (Inr (), w1)"
    by (simp add: w1_def run)
  have w1: "w1 = store_write document_D ?r (world0\<lparr>uploads := 1\<rparr>)"
    by (simp add: w1_def run)
  have p: "parse env_ok (link ?r) = Some \<lparr>filename = ''n1''\<rparr>"
    by (simp add: env_ok_def parse_host_def)
  have stored: "store_read env_ok w1 document_D = Some ?r"
    unfolding w1 by (rule store_read_write [OF p])
  have second: "\<not> isForceUpload options_none"
    by (simp add: options_none_def)
  have same: "\<forall>r. store_read env_ok w1 document_D = Some r \<longrightarrow> unchanged env_ok ''body'' r"
    by (simp add: env_ok_def)
  have u0: "uploads w1 = 1"
    by (simp add: w1)
  from share_twice [OF first second same] stored u0
  have "uploads (snd (share env_ok document_D ''body'' options_none w1)) = 1 \<and>
        store_read env_ok (snd (share env_ok document_D ''body'' options_none w1)) document_D =
          Some ?r"
    by auto
  moreover have "fst (share env_ok document_D ''body'' options_none world0) = Inr ()"
    by (simp add: run)
  ultimately show ?thesis
    using second stored unfolding w1_def by blast
qed

text \<open>
  The claim as it stands fails when the first call fails: nothing is stored, so the
  second call uploads again, and the two calls send two uploads.
\<close>

theorem share_twice_counterexample:
  "\<not> isForceUpload options_none \<and>
   (\<forall>r. unchanged env_down ''body'' r) \<and>
   fst (share env_down document_D ''body'' options_none world0) = Inl (Error ''Network error'') \<and>
   uploads (snd (share env_down document_D ''body'' options_none world0)) = uploads world0 + 1 \<and>
   uploads (snd (share env_down document_D ''body'' options_none
                  (snd (share env_down document_D ''body'' options_none world0)))) =
     uploads world0 + 2"
  by (simp add: share_def share_upload_def store_read_def env_down_def env_ok_def
      options_none_def world0_def frontmatter_value_def)

end
